theory Spec2Isabelle
  imports Main "HOL-Library.AList"
begin

section \<open>Documents, values and the state of the world\<close>

text \<open>
  The store is schemaless: a document is an ordered list of field/value pairs, a value is
  null, a boolean, a number, a string, an identifier generated for a document, an array or
  a nested document. A field is read with \<open>map_of\<close>.
\<close>

datatype val =
    VNull
  | VBool bool
  | VInt int
  | VStr string
  | VOid nat
  | VArr "val list"
  | VDoc "(string \<times> val) list"

type_synonym doc = "(string \<times> val) list"

text \<open>
  A collection handle names a collection of a database (\<open>client.logs.nginx\<close> is the
  collection \<open>nginx\<close> of the database \<open>logs\<close>); Python's \<open>None\<close> in the place of a
  handle is \<open>None :: handle option\<close>.
\<close>

type_synonym handle = "string \<times> string"

datatype exn =
    AttributeError
  | TypeError
  | DuplicateKeyError
  | OverflowError
  | InvalidDocument
  | StoreFailure string

text \<open>
  The world the functions run in: the documents of every collection of the server, the
  counter the client draws fresh identifiers from, the text written to standard output
  (one entry per line), and the outcomes of the coming round trips to the server
  (\<open>Some e\<close>: the round trip fails and the client raises \<open>e\<close>; \<open>None\<close>, or no entry
  left: it goes through).
\<close>

record world =
  colls :: "handle \<Rightarrow> doc list"
  next_oid :: nat
  faults :: "exn option list"
  stdout :: "string list"

type_synonym 'a io = "world \<Rightarrow> (exn + 'a) \<times> world"

definition return_io :: "'a \<Rightarrow> 'a io" where
  "return_io x w = (Inr x, w)"

definition raise_io :: "exn \<Rightarrow> 'a io" where
  "raise_io e w = (Inl e, w)"

text \<open>Sequencing: an exception of the first step ends the computation, as in Python.\<close>

definition then_io :: "'a io \<Rightarrow> ('a \<Rightarrow> 'b io) \<Rightarrow> 'b io" where
  "then_io m f w = (case m w of (Inl e, w') \<Rightarrow> (Inl e, w') | (Inr x, w') \<Rightarrow> f x w')"

definition calls_ok :: "nat \<Rightarrow> world \<Rightarrow> bool" where
  "calls_ok n w = list_all (\<lambda>f. f = None) (take n (faults w))"

section \<open>The store client\<close>

text \<open>
  Modelled from the spec: the store client (the \<open>pymongo\<close> collection object behind a
  handle) is an external collaborator whose code is not part of the repository. The
  operations below follow the collection handle contract and the query filter encoding of
  the spec's section on external interfaces: insert-one(document) gives the generated
  id, find(filter) the matching documents, update-many(filter, field-set) the number of
  matched documents, count-documents(filter) an integer. A filter \<open>{field: value}\<close> is an
  equality filter, and the store treats array fields specially, matching if the value
  appears in the array; a filter with several fields is their conjunction. The filter
  values of this repository are strings, for which a document without the field never
  matches.
\<close>

type_synonym filter = "(string \<times> val) list"

definition field_matches :: "doc \<Rightarrow> string \<Rightarrow> val \<Rightarrow> bool" where
  "field_matches d k v =
     (case map_of d k of
        None \<Rightarrow> False
      | Some x \<Rightarrow> x = v \<or> (case x of VArr xs \<Rightarrow> v \<in> set xs | _ \<Rightarrow> False))"

definition matches :: "filter \<Rightarrow> doc \<Rightarrow> bool" where
  "matches f d = list_all (\<lambda>(k, v). field_matches d k v) f"

text \<open>
  Modelled from the spec: every operation of the store client is one blocking round trip
  to the server, and a failure of the store surfaces as the error the client raises.
\<close>

definition round_trip :: "unit io" where
  "round_trip w =
     (case faults w of
        [] \<Rightarrow> (Inr (), w)
      | None # fs \<Rightarrow> (Inr (), w\<lparr>faults := fs\<rparr>)
      | Some e # fs \<Rightarrow> (Inl e, w\<lparr>faults := fs\<rparr>))"

text \<open>Modelled from the spec: find(filter), the matching documents in the store's order.\<close>

definition coll_find :: "handle \<Rightarrow> filter \<Rightarrow> doc list io" where
  "coll_find h f =
     then_io round_trip (\<lambda>_ w. (Inr (filter (matches f) (colls w h)), w))"

text \<open>Modelled from the spec: count-documents(filter), the number of matching documents.\<close>

definition coll_count_documents :: "handle \<Rightarrow> filter \<Rightarrow> nat io" where
  "coll_count_documents h f =
     then_io round_trip (\<lambda>_ w. (Inr (length (filter (matches f) (colls w h))), w))"

text \<open>
  Modelled from the spec: update-many(filter, field-set) writes the given fields on every
  matching document (a field that exists is overwritten in place, a new one is added) and
  gives the number of matched documents.
\<close>

definition set_fields :: "(string \<times> val) list \<Rightarrow> doc \<Rightarrow> doc" where
  "set_fields upd d = fold (\<lambda>(k, v). AList.update k v) upd d"

definition coll_update_many :: "handle \<Rightarrow> filter \<Rightarrow> (string \<times> val) list \<Rightarrow> nat io" where
  "coll_update_many h f upd =
     then_io round_trip (\<lambda>_ w.
       (Inr (length (filter (matches f) (colls w h))),
        w\<lparr>colls := (colls w)(h := map (\<lambda>d. if matches f d then set_fields upd d else d)
                                      (colls w h))\<rparr>))"

text \<open>
  Modelled from the spec: insert-one(document) adds one document and gives its
  identifier. A document without an \<open>_id\<close> field gets a generated one; the identifier of
  a document is unique in its collection, so an identifier already there is refused. The
  spec says nothing of the encoding of a document; the client stores an integer in at
  most 64 bits and refuses a document that holds a larger one, before anything is stored.
\<close>

fun fits_int64 :: "val \<Rightarrow> bool" where
  "fits_int64 (VInt i) = (- 9223372036854775808 \<le> i \<and> i \<le> 9223372036854775807)"
| "fits_int64 (VArr xs) = list_all fits_int64 xs"
| "fits_int64 (VDoc kvs) = list_all (\<lambda>kv. fits_int64 (snd kv)) kvs"
| "fits_int64 _ = True"

definition storable :: "doc \<Rightarrow> bool" where
  "storable d = list_all (\<lambda>kv. fits_int64 (snd kv)) d"

definition has_id :: "val \<Rightarrow> doc \<Rightarrow> bool" where
  "has_id i d = (map_of d ''_id'' = Some i)"

definition coll_insert_one :: "handle \<Rightarrow> doc \<Rightarrow> val io" where
  "coll_insert_one h d =
     then_io round_trip (\<lambda>_ w.
       if \<not> storable d then (Inl OverflowError, w)
       else
       (case map_of d ''_id'' of
          Some i \<Rightarrow>
            if list_ex (has_id i) (colls w h) then (Inl DuplicateKeyError, w)
            else (Inr i, w\<lparr>colls := (colls w)(h := colls w h @ [d])\<rparr>)
        | None \<Rightarrow>
            if list_ex (has_id (VOid (next_oid w))) (colls w h)
            then (Inl DuplicateKeyError, w\<lparr>next_oid := Suc (next_oid w)\<rparr>)
            else (Inr (VOid (next_oid w)),
                  w\<lparr>colls := (colls w)(h := colls w h @ [(''_id'', VOid (next_oid w)) # d]),
                    next_oid := Suc (next_oid w)\<rparr>)))"

section \<open>The functions of the repository\<close>

text \<open>\<open>8-all.py\<close>: \<open>list_all\<close> (the name \<open>list_all\<close> is a constant of HOL).\<close>

definition list_all_docs :: "handle option \<Rightarrow> doc list io" where
  "list_all_docs mongo_collection =
     (case mongo_collection of
        None \<Rightarrow> return_io []
      | Some h \<Rightarrow> coll_find h [])"

text \<open>\<open>9-insert_school.py\<close>: \<open>kwargs\<close> is the dictionary of the keyword arguments.\<close>

definition insert_school :: "handle option \<Rightarrow> doc \<Rightarrow> val io" where
  "insert_school mongo_collection kwargs =
     (case mongo_collection of
        None \<Rightarrow> raise_io AttributeError
      | Some h \<Rightarrow> then_io (coll_insert_one h kwargs) (\<lambda>inserted_id. return_io inserted_id))"

text \<open>
  \<open>10-update_topics.py\<close>: \<open>name\<close> is a string and \<open>topics\<close> a list of strings, as the
  docstring has them; the result of \<open>update_many\<close> is dropped and \<open>None\<close> returned.
\<close>

definition update_topics :: "handle option \<Rightarrow> string \<Rightarrow> string list \<Rightarrow> unit io" where
  "update_topics mongo_collection name topics =
     (case mongo_collection of
        None \<Rightarrow> raise_io AttributeError
      | Some h \<Rightarrow>
          then_io (coll_update_many h [(''name'', VStr name)]
                     [(''topics'', VArr (map VStr topics))])
            (\<lambda>_. return_io ()))"

text \<open>\<open>11-schools_by_topic.py\<close>: \<open>topic\<close> is a string, as the docstring has it.\<close>

definition schools_by_topic :: "handle option \<Rightarrow> string \<Rightarrow> doc list io" where
  "schools_by_topic mongo_collection topic =
     (case mongo_collection of
        None \<Rightarrow> raise_io AttributeError
      | Some h \<Rightarrow> coll_find h [(''topics'', VStr topic)])"

text \<open>
  \<open>12-log_stats.py\<close>. \<open>print\<close> writes one line to standard output; an f-string formats a
  count in decimal.
\<close>

definition print_line :: "string \<Rightarrow> unit io" where
  "print_line s w = (Inr (), w\<lparr>stdout := stdout w @ [s]\<rparr>)"

fun str_nat :: "nat \<Rightarrow> string" where
  "str_nat n =
     (if n < 10 then [''0123456789'' ! n]
      else str_nat (n div 10) @ [''0123456789'' ! (n mod 10)])"

declare str_nat.simps [simp del]

definition nginx :: handle where
  "nginx = (''logs'', ''nginx'')"

text \<open>The line of a method: a tab, then \<open>method\<close>, the method, a colon and the count.\<close>

definition method_line :: "string \<Rightarrow> nat \<Rightarrow> string" where
  "method_line method count = CHR 0x09 # ''method '' @ method @ '': '' @ str_nat count"

text \<open>The loop over the methods: one count and one line for each, in the list's order.\<close>

primrec count_methods :: "handle \<Rightarrow> string list \<Rightarrow> unit io" where
  "count_methods collection [] = return_io ()"
| "count_methods collection (method # methods) =
     then_io (coll_count_documents collection [(''method'', VStr method)]) (\<lambda>count.
     then_io (print_line (method_line method count)) (\<lambda>_.
     count_methods collection methods))"

text \<open>
  Creating the client and naming the collection send nothing to the server; the first
  round trip is the first count.
\<close>

definition logs_statistics :: "unit io" where
  "logs_statistics =
     then_io (coll_count_documents nginx []) (\<lambda>total_logs.
     then_io (print_line (str_nat total_logs @ '' logs'')) (\<lambda>_.
     then_io (print_line ''Methods:'') (\<lambda>_.
     then_io (count_methods nginx [''GET'', ''POST'', ''PUT'', ''PATCH'', ''DELETE'']) (\<lambda>_.
     then_io (coll_count_documents nginx
                [(''method'', VStr ''GET''), (''path'', VStr ''/status'')]) (\<lambda>status_count.
     print_line (str_nat status_count @ '' status check''))))))"





section \<open>Notions used to state the properties\<close>


text \<open>
  In the words of the specification: the \<open>topics\<close> field of a document contains a topic
  as a member (array membership, not equality); a field of a document equals a value.
\<close>

definition topics_contains :: "string \<Rightarrow> doc \<Rightarrow> bool" where
  "topics_contains t d =
     (case map_of d ''topics'' of Some (VArr xs) \<Rightarrow> VStr t \<in> set xs | _ \<Rightarrow> False)"

definition field_equals :: "string \<Rightarrow> val \<Rightarrow> doc \<Rightarrow> bool" where
  "field_equals k v d = (map_of d k = Some v)"

text \<open>A field of a document that is absent or holds anything but an array.\<close>

definition plain_field :: "string \<Rightarrow> doc \<Rightarrow> bool" where
  "plain_field k d = (case map_of d k of Some (VArr xs) \<Rightarrow> False | _ \<Rightarrow> True)"

text \<open>
  In the words of the specification: the report, where the count of a method is the
  number of documents whose \<open>method\<close> field equals it, and the last count the number of
  documents whose \<open>method\<close> equals \<open>GET\<close> and whose \<open>path\<close> equals \<open>/status\<close>.
\<close>

definition claimed_status_check :: "doc \<Rightarrow> bool" where
  "claimed_status_check d = (field_equals ''method'' (VStr ''GET'') d
                             \<and> field_equals ''path'' (VStr ''/status'') d)"

definition claimed_report :: "doc list \<Rightarrow> string list" where
  "claimed_report ds =
     [str_nat (length ds) @ '' logs'',
      ''Methods:'',
      CHR 0x09 # ''method GET: ''
        @ str_nat (length (filter (field_equals ''method'' (VStr ''GET'')) ds)),
      CHR 0x09 # ''method POST: ''
        @ str_nat (length (filter (field_equals ''method'' (VStr ''POST'')) ds)),
      CHR 0x09 # ''method PUT: ''
        @ str_nat (length (filter (field_equals ''method'' (VStr ''PUT'')) ds)),
      CHR 0x09 # ''method PATCH: ''
        @ str_nat (length (filter (field_equals ''method'' (VStr ''PATCH'')) ds)),
      CHR 0x09 # ''method DELETE: ''
        @ str_nat (length (filter (field_equals ''method'' (VStr ''DELETE'')) ds)),
      str_nat (length (filter claimed_status_check ds)) @ '' status check'']"

text \<open>What the store's filters select on one field, and on the method and the path.\<close>

definition field_selects :: "string \<Rightarrow> string \<Rightarrow> doc \<Rightarrow> bool" where
  "field_selects k s d = field_matches d k (VStr s)"

definition status_check :: "doc \<Rightarrow> bool" where
  "status_check d = (field_matches d ''method'' (VStr ''GET'')
                     \<and> field_matches d ''path'' (VStr ''/status''))"

text \<open>The lines of the report on the documents of the collection of logs, in order.\<close>

definition log_report :: "doc list \<Rightarrow> string list" where
  "log_report ds =
     [str_nat (length ds) @ '' logs'',
      ''Methods:'',
      method_line ''GET'' (length (filter (field_selects ''method'' ''GET'') ds)),
      method_line ''POST'' (length (filter (field_selects ''method'' ''POST'') ds)),
      method_line ''PUT'' (length (filter (field_selects ''method'' ''PUT'') ds)),
      method_line ''PATCH'' (length (filter (field_selects ''method'' ''PATCH'') ds)),
      method_line ''DELETE'' (length (filter (field_selects ''method'' ''DELETE'') ds)),
      str_nat (length (filter status_check ds)) @ '' status check'']"

section \<open>A collection of schools\<close>

definition schools :: handle where
  "schools = (''my_db'', ''school'')"

definition holberton :: doc where
  "holberton = [(''_id'', VOid 0), (''name'', VStr ''Holberton''),
                (''topics'', VArr [VStr ''c''])]"

definition ucsf :: doc where
  "ucsf = [(''_id'', VOid 1), (''name'', VStr ''UCSF''),
           (''topics'', VArr [VStr ''python'', VStr ''c''])]"

text \<open>A document the store accepts as any other: its name is an array, its topics a string.\<close>

definition campus :: doc where
  "campus = [(''_id'', VOid 2), (''name'', VArr [VStr ''Holberton'', VStr ''ALX'']),
             (''topics'', VStr ''c'')]"

definition school_world :: world where
  "school_world =
     \<lparr>colls = (\<lambda>_. [])(schools := [holberton, ucsf, campus]),
      next_oid = 3, faults = [], stdout = []\<rparr>"

section \<open>A collection of logs\<close>

definition log_get_status :: doc where
  "log_get_status = [(''method'', VStr ''GET''), (''path'', VStr ''/status'')]"

definition log_get :: doc where
  "log_get = [(''method'', VStr ''GET''), (''path'', VStr ''/'')]"

definition log_post :: doc where
  "log_post = [(''method'', VStr ''POST''), (''path'', VStr ''/status'')]"

definition logs_world :: world where
  "logs_world =
     \<lparr>colls = (\<lambda>_. [])(nginx := [log_get_status, log_get, log_post]),
      next_oid = 0, faults = [], stdout = []\<rparr>"

text \<open>A log whose method is an array of two methods.\<close>

definition log_two_methods :: doc where
  "log_two_methods = [(''method'', VArr [VStr ''GET'', VStr ''POST'']), (''path'', VStr ''/'')]"

definition odd_logs_world :: world where
  "odd_logs_world =
     \<lparr>colls = (\<lambda>_. [])(nginx := [log_two_methods]),
      next_oid = 0, faults = [], stdout = []\<rparr>"

text \<open>A world whose first round trip fails, and one whose third round trip fails.\<close>

definition down_world :: world where
  "down_world =
     \<lparr>colls = (\<lambda>_. [])(schools := [holberton]),
      next_oid = 1, faults = [Some (StoreFailure ''unreachable'')], stdout = []\<rparr>"

definition failing_world :: world where
  "failing_world =
     \<lparr>colls = (\<lambda>_. [])(nginx := [log_get_status, log_get, log_post],
                        schools := [holberton]),
      next_oid = 1, faults = [None, None, Some (StoreFailure ''connection lost'')],
      stdout = []\<rparr>"

section \<open>Basic facts about the store client\<close>

lemma round_trip_ok:
  "calls_ok (Suc n) w \<Longrightarrow> round_trip w = (Inr (), w\<lparr>faults := tl (faults w)\<rparr>)"
  by (cases "faults w") (auto simp: calls_ok_def round_trip_def)

lemma calls_ok_tl:
  "calls_ok (Suc n) w \<Longrightarrow> calls_ok n (w\<lparr>faults := tl (faults w)\<rparr>)"
  by (cases "faults w") (auto simp: calls_ok_def)

lemma coll_find_ok:
  "calls_ok (Suc n) w \<Longrightarrow>
   coll_find h f w = (Inr (filter (matches f) (colls w h)), w\<lparr>faults := tl (faults w)\<rparr>)"
  by (simp add: coll_find_def then_io_def round_trip_ok)

lemma coll_count_documents_ok:
  "calls_ok (Suc n) w \<Longrightarrow>
   coll_count_documents h f w =
     (Inr (length (filter (matches f) (colls w h))), w\<lparr>faults := tl (faults w)\<rparr>)"
  by (simp add: coll_count_documents_def then_io_def round_trip_ok)

lemma coll_update_many_ok:
  "calls_ok (Suc n) w \<Longrightarrow>
   coll_update_many h f upd w =
     (Inr (length (filter (matches f) (colls w h))),
      w\<lparr>colls := (colls w)(h := map (\<lambda>d. if matches f d then set_fields upd d else d)
                                    (colls w h)),
        faults := tl (faults w)\<rparr>)"
  by (simp add: coll_update_many_def then_io_def round_trip_ok)

lemma str_nat_decimal:
  "str_nat 0 = ''0''" "str_nat 7 = ''7''" "str_nat 10 = ''10''" "str_nat 2024 = ''2024''"
  by (simp_all add: str_nat.simps)

lemma matches_empty: "matches [] d"
  by (simp add: matches_def)

lemma matches_single: "matches [(k, v)] d = field_matches d k v"
  by (simp add: matches_def)

lemma set_fields_single: "set_fields [(k, v)] d = AList.update k v d"
  by (simp add: set_fields_def)

lemma field_matches_eq: "map_of d k = Some v \<Longrightarrow> field_matches d k v"
  by (simp add: field_matches_def)

lemma field_matches_update_other:
  "k \<noteq> k' \<Longrightarrow> field_matches (AList.update k' x d) k v = field_matches d k v"
  by (simp add: field_matches_def update_conv')

lemma update_topics_ok:
  "calls_ok (Suc n) w \<Longrightarrow>
   update_topics (Some h) name topics w =
     (Inr (),
      w\<lparr>colls := (colls w)(h := map (\<lambda>d. if field_matches d ''name'' (VStr name)
                                          then AList.update ''topics'' (VArr (map VStr topics)) d
                                          else d) (colls w h)),
        faults := tl (faults w)\<rparr>)"
  by (simp add: update_topics_def then_io_def return_io_def coll_update_many_ok
      matches_single set_fields_single cong: if_cong)






lemma then_io_Inr: "m w = (Inr x, w') \<Longrightarrow> then_io m f w = f x w'"
  by (simp add: then_io_def)

lemma calls_ok_drop:
  "calls_ok (m + n) w \<Longrightarrow> calls_ok n (w\<lparr>faults := drop m (faults w)\<rparr>)"
proof -
  assume "calls_ok (m + n) w"
  then have "list_all (\<lambda>f. f = None) (drop m (take (n + m) (faults w)))"
    by (auto simp: calls_ok_def list_all_iff add.commute dest: in_set_dropD)
  then show ?thesis
    by (simp add: calls_ok_def take_drop)
qed

lemma calls_ok_less: "calls_ok (m + n) w \<Longrightarrow> calls_ok m w"
  by (auto simp: calls_ok_def list_all_iff take_add)

lemma count_methods_ok:
  "calls_ok (length ms) w \<Longrightarrow>
   count_methods c ms w =
     (Inr (),
      w\<lparr>faults := drop (length ms) (faults w),
        stdout := stdout w @
          map (\<lambda>m. method_line m (length (filter (field_selects ''method'' m) (colls w c)))) ms\<rparr>)"
proof (induction ms arbitrary: w)
  case Nil
  then show ?case by (simp add: return_io_def)
next
  case (Cons m ms)
  then have ok: "calls_ok (Suc (length ms)) w" by simp
  let ?w2 = "w\<lparr>faults := tl (faults w),
               stdout := stdout w @
                 [method_line m (length (filter (field_selects ''method'' m) (colls w c)))]\<rparr>"
  have sel: "matches [(''method'', VStr m)] = field_selects ''method'' m"
    by (simp add: fun_eq_iff matches_single field_selects_def)
  have rest: "calls_ok (length ms) ?w2"
    using calls_ok_tl [OF ok] by (simp add: calls_ok_def)
  show ?case
    by (simp add: then_io_def coll_count_documents_ok [OF ok] print_line_def sel
        Cons.IH [OF rest] drop_Suc)
qed

lemma matches_method: "matches [(''method'', VStr m)] = field_selects ''method'' m"
  by (simp add: fun_eq_iff matches_single field_selects_def)

lemma matches_status:
  "matches [(''method'', VStr ''GET''), (''path'', VStr ''/status'')] = status_check"
  by (simp add: fun_eq_iff matches_def status_check_def)





lemma field_matches_plain:
  "plain_field k d \<Longrightarrow> field_matches d k v = field_equals k v d"
  by (auto simp: plain_field_def field_matches_def field_equals_def
      split: option.splits val.splits)

lemma filter_selects_plain:
  "list_all (plain_field k) ds \<Longrightarrow>
   filter (field_selects k s) ds = filter (field_equals k (VStr s)) ds"
  by (induction ds) (simp_all add: field_selects_def field_matches_plain)

lemma filter_status_plain:
  "list_all (plain_field ''method'') ds \<Longrightarrow> list_all (plain_field ''path'') ds \<Longrightarrow>
   filter status_check ds = filter claimed_status_check ds"
  by (induction ds) (simp_all add: status_check_def claimed_status_check_def field_matches_plain)

lemma matches_topics:
  "matches [(''topics'', VStr t)]
   = (\<lambda>d. topics_contains t d \<or> field_equals ''topics'' (VStr t) d)"
  by (auto simp: fun_eq_iff matches_single field_matches_def topics_contains_def
      field_equals_def split: option.splits val.splits)

lemma filter_topics_no_equal:
  "\<not> list_ex (field_equals ''topics'' (VStr t)) ds \<Longrightarrow>
   filter (\<lambda>d. topics_contains t d \<or> field_equals ''topics'' (VStr t) d) ds
   = filter (topics_contains t) ds"
  by (induction ds) simp_all

lemma logs_statistics_ok:
  assumes "calls_ok 7 w"
  shows "logs_statistics w =
     (Inr (),
      w\<lparr>faults := drop 7 (faults w),
        stdout := stdout w @
          [str_nat (length (colls w nginx)) @ '' logs'',
           ''Methods:'',
           CHR 0x09 # ''method GET: ''
             @ str_nat (length (filter (field_selects ''method'' ''GET'') (colls w nginx))),
           CHR 0x09 # ''method POST: ''
             @ str_nat (length (filter (field_selects ''method'' ''POST'') (colls w nginx))),
           CHR 0x09 # ''method PUT: ''
             @ str_nat (length (filter (field_selects ''method'' ''PUT'') (colls w nginx))),
           CHR 0x09 # ''method PATCH: ''
             @ str_nat (length (filter (field_selects ''method'' ''PATCH'') (colls w nginx))),
           CHR 0x09 # ''method DELETE: ''
             @ str_nat (length (filter (field_selects ''method'' ''DELETE'') (colls w nginx))),
           str_nat (length (filter status_check (colls w nginx))) @ '' status check'']\<rparr>)"
proof -
  let ?ms = "[''GET'', ''POST'', ''PUT'', ''PATCH'', ''DELETE'']"
  let ?status = "[(''method'', VStr ''GET''), (''path'', VStr ''/status'')]"
  let ?total = "length (filter (matches []) (colls w nginx))"
  let ?w1 = "w\<lparr>faults := tl (faults w)\<rparr>"
  let ?w2 = "?w1\<lparr>stdout := stdout ?w1 @ [str_nat ?total @ '' logs'']\<rparr>"
  let ?w3 = "?w2\<lparr>stdout := stdout ?w2 @ [''Methods:'']\<rparr>"
  let ?w4 = "?w3\<lparr>faults := drop (length ?ms) (faults ?w3),
        stdout := stdout ?w3 @
          map (\<lambda>m. method_line m (length (filter (field_selects ''method'' m) (colls ?w3 nginx))))
            ?ms\<rparr>"
  let ?checks = "length (filter (matches ?status) (colls ?w4 nginx))"
  let ?w5 = "?w4\<lparr>faults := tl (faults ?w4)\<rparr>"
  let ?w6 = "?w5\<lparr>stdout := stdout ?w5 @ [str_nat ?checks @ '' status check'']\<rparr>"
  have ok7: "calls_ok (Suc 6) w" using assms by simp
  have ok6: "calls_ok (5 + 1) ?w3"
    using calls_ok_tl [OF ok7] by (simp add: calls_ok_def)
  have ok5: "calls_ok (length ?ms) ?w3"
    using calls_ok_less [OF ok6] by (simp add: eval_nat_numeral)
  have ok1: "calls_ok (Suc 0) ?w4"
    using calls_ok_drop [OF ok6] by (simp add: calls_ok_def eval_nat_numeral)
  have first: "coll_count_documents nginx [] w = (Inr ?total, ?w1)"
    by (rule coll_count_documents_ok [OF ok7])
  have line1: "print_line (str_nat ?total @ '' logs'') ?w1 = (Inr (), ?w2)"
    by (simp only: print_line_def)
  have line2: "print_line ''Methods:'' ?w2 = (Inr (), ?w3)"
    by (simp only: print_line_def)
  have loop: "count_methods nginx ?ms ?w3 = (Inr (), ?w4)"
    by (rule count_methods_ok [OF ok5])
  have last: "coll_count_documents nginx ?status ?w4 = (Inr ?checks, ?w5)"
    by (rule coll_count_documents_ok [OF ok1])
  have line3: "print_line (str_nat ?checks @ '' status check'') ?w5 = (Inr (), ?w6)"
    by (simp only: print_line_def)
  have run: "logs_statistics w = (Inr (), ?w6)"
    unfolding logs_statistics_def
    by (simp only:
        then_io_Inr [of "coll_count_documents nginx []" w, OF first]
        then_io_Inr [of "print_line (str_nat ?total @ '' logs'')" ?w1, OF line1]
        then_io_Inr [of "print_line ''Methods:''" ?w2, OF line2]
        then_io_Inr [of "count_methods nginx ?ms" ?w3, OF loop]
        then_io_Inr [of "coll_count_documents nginx ?status" ?w4, OF last]
        line3)
  have sel: "matches ?status = status_check"
    by (simp add: fun_eq_iff matches_def status_check_def)
  have drops: "tl (drop (Suc (Suc (Suc (Suc (Suc 0))))) (tl (faults w))) = drop 7 (faults w)"
    by (simp add: drop_Suc tl_drop eval_nat_numeral)
  show ?thesis
    unfolding run by (simp add: drops matches_empty sel method_line_def)
qed

lemma logs_statistics_fault:
  assumes "k < 7" and "faults w = replicate k None @ Some e # rest"
  shows "logs_statistics w =
           (Inl e,
            w\<lparr>faults := rest,
              stdout := stdout w @ take (if k = 0 then 0 else Suc k) (log_report (colls w nginx))\<rparr>)"
proof -
  from assms(1) consider "k = 0" | "k = 1" | "k = 2" | "k = 3" | "k = 4" | "k = 5" | "k = 6"
    by linarith
  then show ?thesis
  proof cases
    case 1
    with assms(2) show ?thesis
      by (simp add: logs_statistics_def coll_count_documents_def then_io_def round_trip_def)
  next
    case 2
    with assms(2) show ?thesis
      by (simp add: logs_statistics_def coll_count_documents_def then_io_def round_trip_def
          print_line_def return_io_def log_report_def matches_empty matches_method
          matches_status eval_nat_numeral)
  next
    case 3
    with assms(2) show ?thesis
      by (simp add: logs_statistics_def coll_count_documents_def then_io_def round_trip_def
          print_line_def return_io_def log_report_def matches_empty matches_method
          matches_status eval_nat_numeral)
  next
    case 4
    with assms(2) show ?thesis
      by (simp add: logs_statistics_def coll_count_documents_def then_io_def round_trip_def
          print_line_def return_io_def log_report_def matches_empty matches_method
          matches_status eval_nat_numeral)
  next
    case 5
    with assms(2) show ?thesis
      by (simp add: logs_statistics_def coll_count_documents_def then_io_def round_trip_def
          print_line_def return_io_def log_report_def matches_empty matches_method
          matches_status eval_nat_numeral)
  next
    case 6
    with assms(2) show ?thesis
      by (simp add: logs_statistics_def coll_count_documents_def then_io_def round_trip_def
          print_line_def return_io_def log_report_def matches_empty matches_method
          matches_status eval_nat_numeral)
  next
    case 7
    with assms(2) show ?thesis
      by (simp add: logs_statistics_def coll_count_documents_def then_io_def round_trip_def
          print_line_def return_io_def log_report_def matches_empty matches_method
          matches_status eval_nat_numeral)
  qed
qed

lemmas school_defs = school_world_def schools_def holberton_def ucsf_def campus_def

lemmas logs_defs = logs_world_def odd_logs_world_def nginx_def log_get_status_def log_get_def
  log_post_def log_two_methods_def failing_world_def

lemmas run_defs = then_io_def return_io_def raise_io_def round_trip_def calls_ok_def
  matches_def field_matches_def set_fields_def

section \<open>Missing collection handle\<close>

text \<open>
  C9. Only \<open>list_all\<close> guards against a missing collection handle: with \<open>None\<close> for the
  handle it returns the empty list, whereas \<open>insert_school\<close>, \<open>update_topics\<close> and
  \<open>schools_by_topic\<close> raise (the attribute lookup on \<open>None\<close> fails) and return nothing;
  none of the four touches the world.
\<close>

theorem none_handle_only_list_all_guards:
  "list_all_docs None w = (Inr [], w)
   \<and> insert_school None kwargs w = (Inl AttributeError, w)
   \<and> update_topics None name topics w = (Inl AttributeError, w)
   \<and> schools_by_topic None topic w = (Inl AttributeError, w)"
  by (simp add: list_all_docs_def insert_school_def update_topics_def schools_by_topic_def
      return_io_def raise_io_def)

section \<open>Listing the documents\<close>

text \<open>
  C4. For every state of the world, \<open>list_all\<close> called with \<open>None\<close> for the handle
  returns the empty list at once, without any access to the store (the world, the coming
  round trips included, is as before); called with a collection handle, when the round
  trip goes through, it returns every document of that collection, in the store's order.
\<close>

theorem list_all_none_or_every_document:
  "list_all_docs None w = (Inr [], w)
   \<and> (calls_ok (Suc 0) w \<longrightarrow>
        list_all_docs (Some h) w = (Inr (colls w h), w\<lparr>faults := tl (faults w)\<rparr>))"
  by (simp add: list_all_docs_def return_io_def coll_find_ok matches_empty)

theorem list_all_none_or_every_document_witness:
  "calls_ok (Suc 0) school_world
   \<and> list_all_docs None school_world = (Inr [], school_world)
   \<and> list_all_docs (Some schools) school_world
     = (Inr [holberton, ucsf, campus], school_world)"
proof -
  have ok: "calls_ok (Suc 0) school_world"
    by (simp add: calls_ok_def school_world_def)
  have same: "school_world\<lparr>faults := tl (faults school_world)\<rparr> = school_world"
    by (simp add: school_world_def)
  show ?thesis
    using ok same list_all_none_or_every_document [of school_world schools]
    by (simp add: school_world_def)
qed

section \<open>Updating the topics of the schools of a name\<close>

text \<open>
  C1. For every state of the collection, every name \<open>N\<close> and every sequence of topics
  \<open>T\<close>: when the round trip goes through, \<open>update_topics\<close> returns nothing (\<open>None\<close>), and
  afterwards every document of the collection whose \<open>name\<close> field equals \<open>N\<close> has its
  \<open>topics\<close> field equal to \<open>T\<close> exactly, whatever the field held before.
\<close>

theorem update_topics_sets_topics:
  assumes "calls_ok (Suc 0) w"
  shows "fst (update_topics (Some h) N T w) = Inr ()
         \<and> (\<forall>d \<in> set (colls (snd (update_topics (Some h) N T w)) h).
               map_of d ''name'' = Some (VStr N) \<longrightarrow>
               map_of d ''topics'' = Some (VArr (map VStr T)))"
  using assms
  by (auto simp: update_topics_ok update_conv' field_matches_eq)

theorem update_topics_sets_topics_witness:
  "calls_ok (Suc 0) school_world
   \<and> fst (update_topics (Some schools) ''Holberton'' [''go'', ''rust''] school_world) = Inr ()
   \<and> map_of (hd (colls (snd (update_topics (Some schools) ''Holberton'' [''go'', ''rust'']
                               school_world)) schools)) ''name''
     = Some (VStr ''Holberton'')
   \<and> map_of (hd (colls (snd (update_topics (Some schools) ''Holberton'' [''go'', ''rust'']
                               school_world)) schools)) ''topics''
     = Some (VArr [VStr ''go'', VStr ''rust''])"
proof -
  have ok: "calls_ok (Suc 0) school_world"
    by (simp add: calls_ok_def school_world_def)
  have first: "hd (colls (snd (update_topics (Some schools) ''Holberton'' [''go'', ''rust'']
                                 school_world)) schools)
               \<in> set (colls (snd (update_topics (Some schools) ''Holberton'' [''go'', ''rust'']
                                    school_world)) schools)"
    by (simp add: update_topics_ok [OF ok]) (simp add: school_defs)
  have name: "map_of (hd (colls (snd (update_topics (Some schools) ''Holberton''
                 [''go'', ''rust''] school_world)) schools)) ''name''
              = Some (VStr ''Holberton'')"
    by (simp add: update_topics_ok [OF ok]) (simp add: school_defs field_matches_def)
  show ?thesis
    using ok first name
      update_topics_sets_topics [OF ok, of schools "''Holberton''" "[''go'', ''rust'']"]
    by auto
qed

text \<open>
  C6 as the specification states it, in the specification's words: every document whose
  \<open>name\<close> field does not equal \<open>N\<close> is left unchanged. The document \<open>campus\<close> has a name
  other than \<open>Holberton\<close> (an array that holds it), and the update of \<open>Holberton\<close>
  rewrites its topics.
\<close>

theorem update_topics_changes_array_named_counterexample:
  "colls school_world schools ! 2 = campus
   \<and> map_of campus ''name'' \<noteq> Some (VStr ''Holberton'')
   \<and> fst (update_topics (Some schools) ''Holberton'' [''go''] school_world) = Inr ()
   \<and> colls (snd (update_topics (Some schools) ''Holberton'' [''go''] school_world)) schools ! 2
     = [(''_id'', VOid 2), (''name'', VArr [VStr ''Holberton'', VStr ''ALX'']),
        (''topics'', VArr [VStr ''go''])]
   \<and> colls (snd (update_topics (Some schools) ''Holberton'' [''go''] school_world)) schools ! 2
     \<noteq> campus"
  by (simp add: update_topics_def coll_update_many_def run_defs school_defs)

text \<open>
  C6, amended. For every state of the collection, name \<open>N\<close> and topics \<open>T\<close>, when the
  round trip goes through, \<open>update_topics\<close> leaves unchanged every document that the
  filter on the name does not match (its \<open>name\<close> field neither equals \<open>N\<close> nor is an
  array that holds \<open>N\<close>), so every document whose \<open>name\<close> field is no array and does
  not equal \<open>N\<close>; on every document it leaves every field other than \<open>topics\<close> as it
  was; it adds and removes no document, and changes no other collection, nor the
  identifier counter, nor the output.
\<close>

theorem update_topics_frame:
  assumes "calls_ok (Suc 0) w"
  shows "length (colls (snd (update_topics (Some h) N T w)) h) = length (colls w h)
         \<and> (\<forall>i < length (colls w h).
               (\<not> field_matches (colls w h ! i) ''name'' (VStr N) \<longrightarrow>
                  colls (snd (update_topics (Some h) N T w)) h ! i = colls w h ! i)
               \<and> (plain_field ''name'' (colls w h ! i)
                  \<and> \<not> field_equals ''name'' (VStr N) (colls w h ! i) \<longrightarrow>
                  colls (snd (update_topics (Some h) N T w)) h ! i = colls w h ! i)
               \<and> (\<forall>k. k \<noteq> ''topics'' \<longrightarrow>
                    map_of (colls (snd (update_topics (Some h) N T w)) h ! i) k
                    = map_of (colls w h ! i) k))
         \<and> (\<forall>h'. h' \<noteq> h \<longrightarrow> colls (snd (update_topics (Some h) N T w)) h' = colls w h')
         \<and> next_oid (snd (update_topics (Some h) N T w)) = next_oid w
         \<and> stdout (snd (update_topics (Some h) N T w)) = stdout w"
  using assms
  by (auto simp: update_topics_ok update_conv' field_matches_plain)

theorem update_topics_frame_witness:
  "calls_ok (Suc 0) school_world
   \<and> \<not> field_matches (colls school_world schools ! 1) ''name'' (VStr ''Holberton'')
   \<and> plain_field ''name'' (colls school_world schools ! 1)
   \<and> \<not> field_equals ''name'' (VStr ''Holberton'') (colls school_world schools ! 1)
   \<and> colls (snd (update_topics (Some schools) ''Holberton'' [''go''] school_world)) schools ! 1
     = ucsf
   \<and> map_of (colls (snd (update_topics (Some schools) ''Holberton'' [''go''] school_world))
               schools ! 0) ''name''
     = Some (VStr ''Holberton'')
   \<and> colls (snd (update_topics (Some schools) ''Holberton'' [''go''] school_world))
       (''my_db'', ''other'') = []"
proof -
  have ok: "calls_ok (Suc 0) school_world"
    by (simp add: calls_ok_def school_world_def)
  have no: "\<not> field_matches (colls school_world schools ! 1) ''name'' (VStr ''Holberton'')"
    by (simp add: field_matches_def school_defs)
  have plain: "plain_field ''name'' (colls school_world schools ! 1)
               \<and> \<not> field_equals ''name'' (VStr ''Holberton'') (colls school_world schools ! 1)"
    by (simp add: plain_field_def field_equals_def school_defs)
  have before: "colls school_world schools ! 1 = ucsf
                \<and> map_of (colls school_world schools ! 0) ''name'' = Some (VStr ''Holberton'')
                \<and> length (colls school_world schools) = 3
                \<and> colls school_world (''my_db'', ''other'') = []
                \<and> (''my_db'', ''other'') \<noteq> schools"
    by (simp add: school_defs)
  show ?thesis
    using ok no plain before
      update_topics_frame [OF ok, of schools "''Holberton''" "[''go'']"]
    by (auto simp: numeral_3_eq_3)
qed

text \<open>
  C7. For every state of the collection, name \<open>N\<close> and topics \<open>T\<close>: when the two round
  trips go through, calling \<open>update_topics\<close> twice in succession leaves the collections
  (and the identifier counter and the output) as calling it once does.
\<close>

theorem update_topics_idempotent:
  assumes "calls_ok (Suc (Suc 0)) w"
  shows "fst (update_topics (Some h) N T w) = Inr ()
         \<and> fst (update_topics (Some h) N T (snd (update_topics (Some h) N T w))) = Inr ()
         \<and> colls (snd (update_topics (Some h) N T (snd (update_topics (Some h) N T w))))
           = colls (snd (update_topics (Some h) N T w))
         \<and> next_oid (snd (update_topics (Some h) N T (snd (update_topics (Some h) N T w))))
           = next_oid (snd (update_topics (Some h) N T w))
         \<and> stdout (snd (update_topics (Some h) N T (snd (update_topics (Some h) N T w))))
           = stdout (snd (update_topics (Some h) N T w))"
proof -
  let ?w1 = "w\<lparr>colls := (colls w)(h := map (\<lambda>d. if field_matches d ''name'' (VStr N)
                                          then AList.update ''topics'' (VArr (map VStr T)) d
                                          else d) (colls w h)),
        faults := tl (faults w)\<rparr>"
  have once: "update_topics (Some h) N T w = (Inr (), ?w1)"
    using assms by (rule update_topics_ok)
  have ok: "calls_ok (Suc 0) ?w1"
    using calls_ok_tl [OF assms] by (simp add: calls_ok_def)
  show ?thesis
    by (simp add: once update_topics_ok [OF ok] field_matches_update_other fun_eq_iff
        cong: if_cong)
qed

theorem update_topics_idempotent_witness:
  "calls_ok (Suc (Suc 0)) school_world
   \<and> colls (snd (update_topics (Some schools) ''Holberton'' [''go'']
              (snd (update_topics (Some schools) ''Holberton'' [''go''] school_world)))) schools
     = colls (snd (update_topics (Some schools) ''Holberton'' [''go''] school_world)) schools
   \<and> colls (snd (update_topics (Some schools) ''Holberton'' [''go''] school_world)) schools
     = [[(''_id'', VOid 0), (''name'', VStr ''Holberton''), (''topics'', VArr [VStr ''go''])],
        ucsf,
        [(''_id'', VOid 2), (''name'', VArr [VStr ''Holberton'', VStr ''ALX'']),
         (''topics'', VArr [VStr ''go''])]]"
proof -
  have ok: "calls_ok (Suc (Suc 0)) school_world"
    by (simp add: calls_ok_def school_world_def)
  have once: "colls (snd (update_topics (Some schools) ''Holberton'' [''go''] school_world))
                schools
              = [[(''_id'', VOid 0), (''name'', VStr ''Holberton''),
                  (''topics'', VArr [VStr ''go''])],
                 ucsf,
                 [(''_id'', VOid 2), (''name'', VArr [VStr ''Holberton'', VStr ''ALX'']),
                  (''topics'', VArr [VStr ''go''])]]"
    by (simp add: update_topics_def coll_update_many_def run_defs school_defs)
  show ?thesis
    using ok once
      update_topics_idempotent [OF ok, of schools "''Holberton''" "[''go'']"]
    by simp
qed

section \<open>Filtering the schools by topic\<close>

text \<open>
  C2 as the specification states it: the result of \<open>schools_by_topic\<close> is the part of the
  result of \<open>list_all\<close> whose \<open>topics\<close> field contains the topic as a member, by array
  membership and not equality. The topics of \<open>campus\<close> are the string \<open>c\<close>, no array that
  contains it, and the filter returns \<open>campus\<close> as well.
\<close>

theorem schools_by_topic_equal_topics_counterexample:
  "fst (list_all_docs (Some schools) school_world) = Inr [holberton, ucsf, campus]
   \<and> filter (topics_contains ''c'') [holberton, ucsf, campus] = [holberton, ucsf]
   \<and> fst (schools_by_topic (Some schools) ''c'' school_world) = Inr [holberton, ucsf, campus]"
  by (simp add: list_all_docs_def schools_by_topic_def coll_find_def topics_contains_def
      run_defs school_defs)

text \<open>
  C2, amended. For every collection and every topic \<open>t\<close>, when the round trip goes
  through, \<open>schools_by_topic\<close> returns exactly the documents of the result of \<open>list_all\<close>,
  in the same order, whose \<open>topics\<close> field contains \<open>t\<close> as a member or equals \<open>t\<close>;
  when no document has the plain string \<open>t\<close> for its topics, these are the documents
  whose \<open>topics\<close> field contains \<open>t\<close> as a member.
\<close>

theorem schools_by_topic_member_or_equal:
  assumes "calls_ok (Suc 0) w"
  shows "\<exists>ds. fst (list_all_docs (Some h) w) = Inr ds
              \<and> fst (schools_by_topic (Some h) t w)
                = Inr (filter (\<lambda>d. topics_contains t d \<or> field_equals ''topics'' (VStr t) d) ds)
              \<and> (\<not> list_ex (field_equals ''topics'' (VStr t)) ds \<longrightarrow>
                   fst (schools_by_topic (Some h) t w) = Inr (filter (topics_contains t) ds))"
  using assms
  by (simp add: list_all_docs_def schools_by_topic_def coll_find_ok matches_empty
      matches_topics filter_topics_no_equal)

theorem schools_by_topic_member_or_equal_witness:
  "calls_ok (Suc 0) school_world
   \<and> fst (list_all_docs (Some schools) school_world) = Inr [holberton, ucsf, campus]
   \<and> \<not> list_ex (field_equals ''topics'' (VStr ''python'')) [holberton, ucsf, campus]
   \<and> filter (topics_contains ''python'') [holberton, ucsf, campus] = [ucsf]
   \<and> fst (schools_by_topic (Some schools) ''python'' school_world) = Inr [ucsf]"
proof -
  have ok: "calls_ok (Suc 0) school_world"
    by (simp add: calls_ok_def school_world_def)
  have all: "fst (list_all_docs (Some schools) school_world) = Inr [holberton, ucsf, campus]"
    by (simp add: list_all_docs_def coll_find_def run_defs school_defs)
  have none: "\<not> list_ex (field_equals ''topics'' (VStr ''python'')) [holberton, ucsf, campus]"
    by (simp add: field_equals_def school_defs)
  have sel: "filter (topics_contains ''python'') [holberton, ucsf, campus] = [ucsf]"
    by (simp add: topics_contains_def school_defs)
  from schools_by_topic_member_or_equal [OF ok, of schools "''python''"] all none
  have "fst (schools_by_topic (Some schools) ''python'' school_world)
        = Inr (filter (topics_contains ''python'') [holberton, ucsf, campus])"
    by auto
  then show ?thesis
    using ok all none sel by simp
qed

section \<open>Inserting a school\<close>




section \<open>The report on the logs\<close>

text \<open>
  C3 as the specification states it: the count printed for a method is the number of
  documents whose \<open>method\<close> field equals it. The only log of this collection has an array
  of two methods for its method: no document has a method equal to \<open>GET\<close> or to \<open>POST\<close>,
  and the report counts one of each.
\<close>

theorem logs_statistics_array_method_counterexample:
  "claimed_report (colls odd_logs_world nginx) =
     [''1 logs'',
      ''Methods:'',
      CHR 0x09 # ''method GET: 0'',
      CHR 0x09 # ''method POST: 0'',
      CHR 0x09 # ''method PUT: 0'',
      CHR 0x09 # ''method PATCH: 0'',
      CHR 0x09 # ''method DELETE: 0'',
      ''0 status check'']
   \<and> logs_statistics odd_logs_world =
       (Inr (),
        odd_logs_world\<lparr>stdout :=
          [''1 logs'',
           ''Methods:'',
           CHR 0x09 # ''method GET: 1'',
           CHR 0x09 # ''method POST: 1'',
           CHR 0x09 # ''method PUT: 0'',
           CHR 0x09 # ''method PATCH: 0'',
           CHR 0x09 # ''method DELETE: 0'',
           ''0 status check'']\<rparr>)"
  by (simp add: logs_statistics_def coll_count_documents_def print_line_def method_line_def
      claimed_report_def claimed_status_check_def field_equals_def run_defs logs_defs
      str_nat.simps)

text \<open>
  C3, amended. For every state of the collection \<open>nginx\<close> of the database \<open>logs\<close>, when
  the seven round trips go through, the reporter prints exactly: the number of documents
  followed by \<open>logs\<close>; the line \<open>Methods:\<close>; for each of \<open>GET\<close>, \<open>POST\<close>, \<open>PUT\<close>,
  \<open>PATCH\<close>, \<open>DELETE\<close>, in this order, a line made of a tab, \<open>method\<close>, the method, a
  colon and the number of documents that the store's filter on the method selects (the
  \<open>method\<close> field equals the method or is an array that contains it); and the number of
  documents that the filter on method \<open>GET\<close> and path \<open>/status\<close> selects, followed by
  \<open>status check\<close>. It returns nothing and changes no collection. When no document has an
  array for its \<open>method\<close> or its \<open>path\<close>, these counts are the numbers of documents
  whose \<open>method\<close> equals the method, and whose \<open>method\<close> equals \<open>GET\<close> and \<open>path\<close>
  equals \<open>/status\<close>: the report is the one the specification states.
\<close>

theorem logs_statistics_report:
  assumes "calls_ok 7 w"
  shows "logs_statistics w =
     (Inr (),
      w\<lparr>faults := drop 7 (faults w),
        stdout := stdout w @
          [str_nat (length (colls w nginx)) @ '' logs'',
           ''Methods:'',
           CHR 0x09 # ''method GET: ''
             @ str_nat (length (filter (field_selects ''method'' ''GET'') (colls w nginx))),
           CHR 0x09 # ''method POST: ''
             @ str_nat (length (filter (field_selects ''method'' ''POST'') (colls w nginx))),
           CHR 0x09 # ''method PUT: ''
             @ str_nat (length (filter (field_selects ''method'' ''PUT'') (colls w nginx))),
           CHR 0x09 # ''method PATCH: ''
             @ str_nat (length (filter (field_selects ''method'' ''PATCH'') (colls w nginx))),
           CHR 0x09 # ''method DELETE: ''
             @ str_nat (length (filter (field_selects ''method'' ''DELETE'') (colls w nginx))),
           str_nat (length (filter status_check (colls w nginx))) @ '' status check'']\<rparr>)
   \<and> (list_all (plain_field ''method'') (colls w nginx)
        \<and> list_all (plain_field ''path'') (colls w nginx) \<longrightarrow>
        logs_statistics w =
          (Inr (),
           w\<lparr>faults := drop 7 (faults w),
             stdout := stdout w @ claimed_report (colls w nginx)\<rparr>))"
  using logs_statistics_ok [OF assms]
  by (simp add: claimed_report_def filter_selects_plain filter_status_plain)

theorem logs_statistics_report_witness:
  "calls_ok 7 logs_world
   \<and> list_all (plain_field ''method'') (colls logs_world nginx)
   \<and> list_all (plain_field ''path'') (colls logs_world nginx)
   \<and> claimed_report (colls logs_world nginx) =
       [''3 logs'',
        ''Methods:'',
        CHR 0x09 # ''method GET: 2'',
        CHR 0x09 # ''method POST: 1'',
        CHR 0x09 # ''method PUT: 0'',
        CHR 0x09 # ''method PATCH: 0'',
        CHR 0x09 # ''method DELETE: 0'',
        ''1 status check'']
   \<and> logs_statistics logs_world =
       (Inr (),
        logs_world\<lparr>stdout :=
          [''3 logs'',
           ''Methods:'',
           CHR 0x09 # ''method GET: 2'',
           CHR 0x09 # ''method POST: 1'',
           CHR 0x09 # ''method PUT: 0'',
           CHR 0x09 # ''method PATCH: 0'',
           CHR 0x09 # ''method DELETE: 0'',
           ''1 status check'']\<rparr>)"
proof -
  have ok: "calls_ok 7 logs_world"
    by (simp add: calls_ok_def logs_world_def)
  have plain: "list_all (plain_field ''method'') (colls logs_world nginx)
               \<and> list_all (plain_field ''path'') (colls logs_world nginx)"
    by (simp add: plain_field_def logs_defs)
  have claimed: "claimed_report (colls logs_world nginx) =
       [''3 logs'',
        ''Methods:'',
        CHR 0x09 # ''method GET: 2'',
        CHR 0x09 # ''method POST: 1'',
        CHR 0x09 # ''method PUT: 0'',
        CHR 0x09 # ''method PATCH: 0'',
        CHR 0x09 # ''method DELETE: 0'',
        ''1 status check'']"
    by (simp add: claimed_report_def claimed_status_check_def field_equals_def logs_defs
        str_nat.simps)
  have start: "faults logs_world = [] \<and> stdout logs_world = []"
    by (simp add: logs_world_def)
  have same: "logs_world\<lparr>faults := [], stdout := x\<rparr> = logs_world\<lparr>stdout := x\<rparr>" for x
    by (simp add: logs_world_def)
  from logs_statistics_report [OF ok] plain
  have "logs_statistics logs_world =
          (Inr (), logs_world\<lparr>faults := drop 7 (faults logs_world),
                     stdout := stdout logs_world @ claimed_report (colls logs_world nginx)\<rparr>)"
    by blast
  then show ?thesis
    using ok plain claimed by (simp add: start same)
qed

section \<open>Errors of the store\<close>

text \<open>
  C8. For every function of the repository and every error that the store client raises
  during a store call, the function propagates that error to its caller unchanged and
  changes nothing after the failing call: \<open>list_all\<close>, \<open>insert_school\<close>,
  \<open>update_topics\<close> and \<open>schools_by_topic\<close> end with the very error and the very world
  their one store call ended with; the reporter, when its round trip number \<open>k\<close> (from
  \<open>0\<close>) is the first that fails, raises the error of that round trip, having printed the
  lines of the report that come before that count and no other.
\<close>

theorem store_errors_propagate:
  "(coll_find h [] w = (Inl e, w') \<longrightarrow> list_all_docs (Some h) w = (Inl e, w'))
   \<and> (coll_insert_one h kwargs w = (Inl e, w') \<longrightarrow>
        insert_school (Some h) kwargs w = (Inl e, w'))
   \<and> (coll_update_many h [(''name'', VStr name)] [(''topics'', VArr (map VStr topics))] w
        = (Inl e, w') \<longrightarrow>
        update_topics (Some h) name topics w = (Inl e, w'))
   \<and> (coll_find h [(''topics'', VStr topic)] w = (Inl e, w') \<longrightarrow>
        schools_by_topic (Some h) topic w = (Inl e, w'))
   \<and> (k < 7 \<and> faults w = replicate k None @ Some e # rest \<longrightarrow>
        logs_statistics w =
          (Inl e,
           w\<lparr>faults := rest,
             stdout := stdout w @
               take (if k = 0 then 0 else Suc k) (log_report (colls w nginx))\<rparr>))"
  by (simp add: list_all_docs_def insert_school_def update_topics_def schools_by_topic_def
      then_io_def logs_statistics_fault)

theorem store_errors_propagate_witness:
  "list_all_docs (Some schools) down_world
     = (Inl (StoreFailure ''unreachable''), down_world\<lparr>faults := []\<rparr>)
   \<and> insert_school (Some schools) [(''name'', VStr ''ALX'')] down_world
     = (Inl (StoreFailure ''unreachable''), down_world\<lparr>faults := []\<rparr>)
   \<and> update_topics (Some schools) ''Holberton'' [''go''] down_world
     = (Inl (StoreFailure ''unreachable''), down_world\<lparr>faults := []\<rparr>)
   \<and> schools_by_topic (Some schools) ''c'' down_world
     = (Inl (StoreFailure ''unreachable''), down_world\<lparr>faults := []\<rparr>)
   \<and> logs_statistics failing_world
     = (Inl (StoreFailure ''connection lost''),
        failing_world\<lparr>faults := [],
          stdout := [''3 logs'', ''Methods:'', CHR 0x09 # ''method GET: 2'']\<rparr>)"
proof -
  have down: "round_trip down_world
              = (Inl (StoreFailure ''unreachable''), down_world\<lparr>faults := []\<rparr>)"
    by (simp add: round_trip_def down_world_def)
  have calls:
    "coll_find schools [] down_world
     = (Inl (StoreFailure ''unreachable''), down_world\<lparr>faults := []\<rparr>)"
    "coll_insert_one schools [(''name'', VStr ''ALX'')] down_world
     = (Inl (StoreFailure ''unreachable''), down_world\<lparr>faults := []\<rparr>)"
    "coll_update_many schools [(''name'', VStr ''Holberton'')]
       [(''topics'', VArr (map VStr [''go'']))] down_world
     = (Inl (StoreFailure ''unreachable''), down_world\<lparr>faults := []\<rparr>)"
    "coll_find schools [(''topics'', VStr ''c'')] down_world
     = (Inl (StoreFailure ''unreachable''), down_world\<lparr>faults := []\<rparr>)"
    by (simp_all add: coll_find_def coll_insert_one_def coll_update_many_def then_io_def down)
  have third: "(2::nat) < 7 \<and> faults failing_world
               = replicate 2 None @ Some (StoreFailure ''connection lost'') # []"
    by (simp add: failing_world_def eval_nat_numeral)
  have report: "take (if (2::nat) = 0 then 0 else Suc 2) (log_report (colls failing_world nginx))
                = [''3 logs'', ''Methods:'', CHR 0x09 # ''method GET: 2'']"
    by (simp add: log_report_def method_line_def field_selects_def field_matches_def
        logs_defs schools_def str_nat.simps eval_nat_numeral)
  have out: "stdout failing_world = []"
    by (simp add: failing_world_def)
  show ?thesis
    using calls third report out
      store_errors_propagate [of schools down_world "StoreFailure ''unreachable''"
        "down_world\<lparr>faults := []\<rparr>" "[(''name'', VStr ''ALX'')]" "''Holberton''" "[''go'']"
        "''c''"]
      store_errors_propagate [of _ failing_world "StoreFailure ''connection lost''"
        _ _ _ _ _ 2 "[]"]
    by simp
qed

section \<open>The keyword arguments of the insertion\<close>




end
